theory Spec2Isabelle
  imports Complex_Main "HOL-Library.Multiset" "HOL-Library.Char_ord"
    "HOL-Library.List_Lexorder" "HOL-Library.Product_Lexorder"
begin

section \<open>Python values used by the exporter\<close>

text \<open>
  Exceptions of the Python program are values of \<open>error\<close>; a function that may raise
  returns \<open>error + 'a\<close> with \<open>Inl\<close> for the exception.
\<close>

datatype error =
    TypeError
  | ValueError string
  | KeyError string
  | HTTPError nat
  | TransportError
  | JSONDecodeError
  | AuthError

text \<open>\<open>str.isspace\<close> on the ASCII range: tab, LF, VT, FF, CR, FS, GS, RS, US and space.\<close>

definition py_isspace :: "char \<Rightarrow> bool" where
  "py_isspace c = (let n = (of_char c :: nat) in (9 \<le> n \<and> n \<le> 13) \<or> (28 \<le> n \<and> n \<le> 32))"

definition py_strip :: "string \<Rightarrow> string" where
  "py_strip s = rev (dropWhile py_isspace (rev (dropWhile py_isspace s)))"

definition py_upper_char :: "char \<Rightarrow> char" where
  "py_upper_char c =
     (case map_of (zip ''abcdefghijklmnopqrstuvwxyz'' ''ABCDEFGHIJKLMNOPQRSTUVWXYZ'') c of
        Some u \<Rightarrow> u | None \<Rightarrow> c)"

definition py_lower_char :: "char \<Rightarrow> char" where
  "py_lower_char c =
     (case map_of (zip ''ABCDEFGHIJKLMNOPQRSTUVWXYZ'' ''abcdefghijklmnopqrstuvwxyz'') c of
        Some l \<Rightarrow> l | None \<Rightarrow> c)"

definition py_upper :: "string \<Rightarrow> string" where
  "py_upper s = map py_upper_char s"

definition py_lower :: "string \<Rightarrow> string" where
  "py_lower s = map py_lower_char s"

text \<open>\<open>x or d\<close> for an optional string: \<open>None\<close> and the empty string are falsy.\<close>

definition str_or :: "string option \<Rightarrow> string \<Rightarrow> string" where
  "str_or x d = (case x of None \<Rightarrow> d | Some s \<Rightarrow> if s = [] then d else s)"

text \<open>\<open>x or d\<close> for an optional list: \<open>None\<close> and the empty list are falsy.\<close>

definition list_or_empty :: "'a list option \<Rightarrow> 'a list" where
  "list_or_empty x = (case x of None \<Rightarrow> [] | Some xs \<Rightarrow> xs)"

text \<open>A dictionary whose insertion order matters is an association list; \<open>{**a, **b}\<close>
  keeps the keys of \<open>a\<close> in place (with the value of \<open>b\<close> where \<open>b\<close> has the key) and appends
  the keys only \<open>b\<close> has.\<close>

definition dict_get :: "('k \<times> 'v) list \<Rightarrow> 'k \<Rightarrow> 'v option" where
  "dict_get d k = map_of d k"

fun dict_set :: "('k \<times> 'v) list \<Rightarrow> 'k \<Rightarrow> 'v \<Rightarrow> ('k \<times> 'v) list" where
  "dict_set [] k v = [(k, v)]"
| "dict_set ((k', v') # d) k v = (if k' = k then (k, v) # d else (k', v') # dict_set d k v)"

definition dict_merge :: "('k \<times> 'v) list \<Rightarrow> ('k \<times> 'v) list \<Rightarrow> ('k \<times> 'v) list" where
  "dict_merge a b = foldl (\<lambda>d (k, v). dict_set d k v) a b"

section \<open>settings.py\<close>

datatype fmt_value = FStr string | FBool bool | FInt int | FStrs "string list" | FInts "int list"

record sheets_cfg =
  week_start :: "string option"
  partial_period :: "bool option"

record report_config =
  cfg_filename :: string
  cfg_filename_timestamp :: bool
  cfg_column_map :: "(string \<times> string list) list"
  cfg_agg_map :: "(string \<times> string) list"
  cfg_sheets :: sheets_cfg
  cfg_formatting :: "(string \<times> fmt_value) list"

definition DEFAULT_REPORT_CONFIG :: report_config where
  "DEFAULT_REPORT_CONFIG =
     \<lparr> cfg_filename = ''tb_pivot_export.xlsx'',
       cfg_filename_timestamp = True,
       cfg_column_map = [],
       cfg_agg_map = [(''default'', ''mean'')],
       cfg_sheets = \<lparr> week_start = Some ''Sunday'', partial_period = Some False \<rparr>,
       cfg_formatting =
         [(''sheet_raw'', FStr ''Raw Data''), (''sheet_pivot'', FStr ''Pivot''),
          (''sheet_daily'', FStr ''Daily''), (''sheet_weekly'', FStr ''Weekly''),
          (''sheet_monthly'', FStr ''Monthly''), (''sheet_yearly'', FStr ''Yearly''),
          (''header_fill_colors'', FStrs [''B8CCE4'', ''D9E1F2'', ''EEF2FA'']),
          (''header_font_bold'', FBool True), (''header_font_size'', FInt 11),
          (''header_alignment'', FStr ''center''), (''border_style'', FStr ''thin''),
          (''number_format'', FStr ''#,##0.00''),
          (''datetime_format'', FStr ''yyyy-mm-dd hh:mm:ss''),
          (''date_format'', FStr ''yyyy-mm-dd''),
          (''max_col_width'', FInt 60), (''min_col_width'', FInt 18),
          (''freeze_raw'', FInts [1, 0]), (''freeze_pivot'', FInts [1, 1]),
          (''freeze_daily'', FInts [1, 1]), (''freeze_weekly'', FInts [1, 1]),
          (''freeze_monthly'', FInts [1, 1]), (''freeze_yearly'', FInts [1, 1])] \<rparr>"

definition DEFAULT_TIMEZONE :: string where
  "DEFAULT_TIMEZONE = ''Asia/Bangkok''"

definition MAX_ENTITIES :: nat where
  "MAX_ENTITIES = 500"

definition MAX_KEYS :: nat where
  "MAX_KEYS = 100"

definition MAX_POINTS_PER_KEY_PER_ENTITY :: int where
  "MAX_POINTS_PER_KEY_PER_ENTITY = 10000"

text \<open>
  The \<open>reportConfig\<close> of a payload. A field is \<open>None\<close> when the key is absent (or, for
  the three merged sections, null, which \<open>rc.get\<close> does not tell from absent).
  \<open>column_map\<close> tells them apart: absent keeps the default, null gives the empty map.
\<close>

datatype 'a field = Absent | Null | Val 'a

record report_config_in =
  rc_filename :: "string option"
  rc_filename_timestamp :: "bool option"
  rc_formatting :: "(string \<times> fmt_value) list option"
  rc_column_map :: "(string \<times> string list) list field"
  rc_agg_map :: "(string \<times> string) list option"
  rc_sheets :: "sheets_cfg option"

definition merge_sheets :: "sheets_cfg \<Rightarrow> sheets_cfg \<Rightarrow> sheets_cfg" where
  "merge_sheets b ps =
     (if week_start ps = None \<and> partial_period ps = None
      then \<lparr> week_start = None, partial_period = None \<rparr>
      else \<lparr> week_start = (case week_start ps of None \<Rightarrow> week_start b | Some w \<Rightarrow> Some w),
             partial_period =
               (case partial_period ps of None \<Rightarrow> partial_period b | Some f \<Rightarrow> Some f) \<rparr>)"

definition resolve_config :: "report_config \<Rightarrow> report_config_in option \<Rightarrow> report_config" where
  "resolve_config defaults overrides =
     (case overrides of
        None \<Rightarrow> defaults
      | Some rc \<Rightarrow>
          \<lparr> cfg_filename = (case rc_filename rc of None \<Rightarrow> cfg_filename defaults | Some f \<Rightarrow> f),
            cfg_filename_timestamp =
              (case rc_filename_timestamp rc of
                 None \<Rightarrow> cfg_filename_timestamp defaults | Some t \<Rightarrow> t),
            cfg_column_map =
              (case rc_column_map rc of
                 Absent \<Rightarrow> cfg_column_map defaults | Null \<Rightarrow> [] | Val m \<Rightarrow> m),
            cfg_agg_map =
              (case rc_agg_map rc of
                 None \<Rightarrow> cfg_agg_map defaults
               | Some pa \<Rightarrow> if pa = [] then [] else dict_merge (cfg_agg_map defaults) pa),
            cfg_sheets =
              (case rc_sheets rc of
                 None \<Rightarrow> cfg_sheets defaults
               | Some ps \<Rightarrow> merge_sheets (cfg_sheets defaults) ps),
            cfg_formatting =
              (case rc_formatting rc of
                 None \<Rightarrow> cfg_formatting defaults
               | Some pf \<Rightarrow> if pf = [] then [] else dict_merge (cfg_formatting defaults) pf) \<rparr>)"

section \<open>main.py, section 1: the payload and its parsing\<close>

record entity_in =
  e_type :: "string option"
  e_id :: "string option"
  e_name :: "string option"

record entity =
  ent_type :: string
  ent_id :: string
  ent_name :: string

record time_epoch =
  startTs_ms :: "int option"
  endTs_ms :: "int option"

record query =
  q_agg :: "string option"
  q_interval :: "int option"
  q_limit :: "int option"
  q_order :: "string option"

record payload =
  pl_timezone :: "string option"
  pl_timeEpoch :: "time_epoch option"
  pl_entities :: "entity_in list option"
  pl_keys :: "string option list option"
  pl_query :: "query option"
  pl_reportConfig :: "report_config_in option"

record parsed =
  p_timezone :: string
  p_startTs :: int
  p_endTs :: int
  p_entities :: "entity list"
  p_keys :: "string list"
  p_agg :: string
  p_interval :: "int option"
  p_limit :: int
  p_order :: string
  p_filename :: string
  p_filename_timestamp :: bool
  p_fmt :: "(string \<times> fmt_value) list"
  p_column_map :: "(string \<times> string list) list"
  p_agg_map :: "(string \<times> string) list"
  p_sheets_cfg :: sheets_cfg

definition merge_report_config :: "report_config_in option \<Rightarrow> report_config" where
  "merge_report_config payload_report_config =
     resolve_config DEFAULT_REPORT_CONFIG payload_report_config"

text \<open>The loop body over the entities: an entity whose id is missing or empty is skipped.\<close>

fun norm_entities :: "entity_in list \<Rightarrow> entity list" where
  "norm_entities [] = []"
| "norm_entities (e # es) =
     (let et = py_upper (str_or (e_type e) ''ASSET'') in
      case e_id e of
        None \<Rightarrow> norm_entities es
      | Some eid \<Rightarrow>
          if eid = [] then norm_entities es
          else \<lparr> ent_type = et, ent_id = eid, ent_name = str_or (e_name e) eid \<rparr>
                 # norm_entities es)"

definition norm_keys :: "string option list \<Rightarrow> string list" where
  "norm_keys ks = [k. Some k \<leftarrow> ks, py_strip k \<noteq> []]"

text \<open>\<open>int(None)\<close> raises \<open>TypeError\<close>: the start of the range is read first.\<close>

definition parse_payload :: "payload \<Rightarrow> error + parsed" where
  "parse_payload pl =
     (let tz = str_or (pl_timezone pl) DEFAULT_TIMEZONE;
          te = (case pl_timeEpoch pl of
                  None \<Rightarrow> \<lparr> startTs_ms = None, endTs_ms = None \<rparr> | Some t \<Rightarrow> t)
      in case startTs_ms te of
           None \<Rightarrow> Inl TypeError
         | Some start_ts \<Rightarrow>
             (case endTs_ms te of
                None \<Rightarrow> Inl TypeError
              | Some end_ts \<Rightarrow>
                  (let ents = list_or_empty (pl_entities pl);
                       ks = list_or_empty (pl_keys pl);
                       q = (case pl_query pl of
                              None \<Rightarrow> \<lparr> q_agg = None, q_interval = None,
                                         q_limit = None, q_order = None \<rparr>
                            | Some q' \<Rightarrow> q');
                       agg = str_or (q_agg q) ''NONE'';
                       interval = q_interval q;
                       limit0 = (case q_limit q of
                                   None \<Rightarrow> MAX_POINTS_PER_KEY_PER_ENTITY
                                 | Some l \<Rightarrow>
                                     if l = 0 then MAX_POINTS_PER_KEY_PER_ENTITY else l);
                       order = py_upper (str_or (q_order q) ''ASC'');
                       ents1 = (if length ents > MAX_ENTITIES
                                then take MAX_ENTITIES ents else ents);
                       ks1 = (if length ks > MAX_KEYS then take MAX_KEYS ks else ks);
                       limit = (if limit0 > MAX_POINTS_PER_KEY_PER_ENTITY
                                then MAX_POINTS_PER_KEY_PER_ENTITY else limit0);
                       rc = merge_report_config (pl_reportConfig pl)
                   in Inr \<lparr> p_timezone = tz, p_startTs = start_ts, p_endTs = end_ts,
                            p_entities = norm_entities ents1, p_keys = norm_keys ks1,
                            p_agg = agg, p_interval = interval, p_limit = limit,
                            p_order = order, p_filename = cfg_filename rc,
                            p_filename_timestamp = cfg_filename_timestamp rc,
                            p_fmt = cfg_formatting rc, p_column_map = cfg_column_map rc,
                            p_agg_map = cfg_agg_map rc, p_sheets_cfg = cfg_sheets rc \<rparr>)))"

section \<open>main.py, section 2: fetching from the telemetry endpoint\<close>

text \<open>
  A point of the API is a JSON object with the optional fields \<open>ts\<close> and \<open>value\<close>; the
  values are opaque (\<open>'v\<close>). A response body maps each key to its points, in the order of
  the JSON object.
\<close>

type_synonym 'v point = "int option \<times> 'v option"

type_synonym 'v keyed_series = "(string \<times> 'v point list) list"

text \<open>
  What one HTTP request asks for (the URL of \<open>_fetch_timeseries_single\<close>; the base URL and
  the tenant are the same for a whole run and are left out). \<open>rq_interval\<close> is the
  \<open>interval_param\<close>: \<open>Some i\<close> for \<open>&interval=i&intervalType=MILLISECONDS\<close>, \<open>None\<close> for
  the empty string.
\<close>

record request =
  rq_entity_type :: string
  rq_entity_id :: string
  rq_keys :: "string list"
  rq_startTs :: int
  rq_endTs :: int
  rq_limit :: int
  rq_agg :: string
  rq_interval :: "int option"

text \<open>
  The outside world as the fetcher sees it: the requests sent so far and the number of
  credential refreshes. The server (\<open>srv\<close>) and the authentication collaborator (\<open>jwt\<close>,
  whether \<open>get_jwt\<close> returns) are parameters that may depend on that state.
  \<open>NoResponse\<close> is \<open>requests.get\<close> raising; the body is \<open>None\<close> when it is not JSON.
\<close>

record world =
  w_sent :: "request list"
  w_refreshes :: nat

datatype 'v reply = NoResponse | Response nat "'v keyed_series option"

type_synonym 'v server = "world \<Rightarrow> request \<Rightarrow> 'v reply"

definition http_get :: "'v server \<Rightarrow> world \<Rightarrow> request \<Rightarrow> 'v reply \<times> world" where
  "http_get srv w rq = (srv w rq, w\<lparr>w_sent := w_sent w @ [rq]\<rparr>)"

text \<open>\<open>r.raise_for_status()\<close> raises for a status from 400 to 599; then \<open>r.json()\<close>.\<close>

definition raise_for_status_json :: "'v reply \<Rightarrow> error + 'v keyed_series" where
  "raise_for_status_json r =
     (case r of
        NoResponse \<Rightarrow> Inl TransportError
      | Response st body \<Rightarrow>
          if 400 \<le> st \<and> st < 600 then Inl (HTTPError st)
          else (case body of None \<Rightarrow> Inl JSONDecodeError | Some d \<Rightarrow> Inr d))"

definition fetch_timeseries_single ::
  "'v server \<Rightarrow> (world \<Rightarrow> bool) \<Rightarrow> world \<Rightarrow> request \<Rightarrow> (error + 'v keyed_series) \<times> world" where
  "fetch_timeseries_single srv jwt w rq =
     (let (r, w1) = http_get srv w rq in
      case r of
        NoResponse \<Rightarrow> (Inl TransportError, w1)
      | Response st body \<Rightarrow>
          if st = 401 then
            (let w2 = w1\<lparr>w_refreshes := Suc (w_refreshes w1)\<rparr> in
             if \<not> jwt w1 then (Inl AuthError, w2)
             else (let (r2, w3) = http_get srv w2 rq in (raise_for_status_json r2, w3)))
          else (raise_for_status_json r, w1))"

text \<open>\<open>merged.setdefault(key, []).extend(points)\<close> for every item of a chunk.\<close>

definition setdefault_extend ::
  "'v keyed_series \<Rightarrow> string \<Rightarrow> 'v point list \<Rightarrow> 'v keyed_series" where
  "setdefault_extend merged key points =
     (case map_of merged key of
        None \<Rightarrow> merged @ [(key, points)]
      | Some old \<Rightarrow> dict_set merged key (old @ points))"

fun merge_chunk :: "'v keyed_series \<Rightarrow> 'v keyed_series \<Rightarrow> 'v keyed_series" where
  "merge_chunk merged [] = merged"
| "merge_chunk merged ((key, points) # chunk) =
     merge_chunk (setdefault_extend merged key points) chunk"

definition MAX_INTERVALS_PER_REQUEST :: int where
  "MAX_INTERVALS_PER_REQUEST = 700"

text \<open>
  The \<open>while t < end_ts\<close> loop. It may run forever (a \<open>chunk_ms\<close> that is not positive never
  advances \<open>t\<close>), so not returning is the value \<open>None\<close>. An exception of a request leaves
  the loop at once; what was merged so far is lost.
\<close>

partial_function (option) chunk_loop ::
  "'v server \<Rightarrow> (world \<Rightarrow> bool) \<Rightarrow> request \<Rightarrow> int \<Rightarrow> int \<Rightarrow> int \<Rightarrow> 'v keyed_series \<Rightarrow> world
    \<Rightarrow> ((error + 'v keyed_series) \<times> world) option" where
  "chunk_loop srv jwt rq end_ts chunk_ms t merged w =
     (if t < end_ts then
        (let chunk_end = min (t + chunk_ms) end_ts in
         case fetch_timeseries_single srv jwt w (rq\<lparr>rq_startTs := t, rq_endTs := chunk_end\<rparr>) of
           (Inl e, w') \<Rightarrow> Some (Inl e, w')
         | (Inr chunk, w') \<Rightarrow>
             chunk_loop srv jwt rq end_ts chunk_ms chunk_end (merge_chunk merged chunk) w')
      else Some (Inr merged, w))"

text \<open>\<open>interval and agg != "NONE"\<close>: the interval is given, not zero, and aggregation is on.\<close>

definition agg_active :: "string \<Rightarrow> int option \<Rightarrow> bool" where
  "agg_active agg interval = (agg \<noteq> ''NONE'' \<and> interval \<noteq> None \<and> interval \<noteq> Some 0)"

text \<open>
  \<open>n_intervals\<close> is a true division; it is compared as a real number here (the program
  compares the double nearest to it).
\<close>

definition fetch_timeseries ::
  "'v server \<Rightarrow> (world \<Rightarrow> bool) \<Rightarrow> world \<Rightarrow> string \<Rightarrow> string \<Rightarrow> string list \<Rightarrow> int \<Rightarrow> int \<Rightarrow> int
    \<Rightarrow> string \<Rightarrow> int option \<Rightarrow> ((error + 'v keyed_series) \<times> world) option" where
  "fetch_timeseries srv jwt w entity_type entity_id ks start_ts end_ts limit agg interval =
     (let interval_param = (if agg_active agg interval then interval else None);
          rq = \<lparr> rq_entity_type = entity_type, rq_entity_id = entity_id, rq_keys = ks,
                 rq_startTs = start_ts, rq_endTs = end_ts, rq_limit = limit, rq_agg = agg,
                 rq_interval = interval_param \<rparr>
      in case interval_param of
           Some i \<Rightarrow>
             if real_of_int (end_ts - start_ts) / real_of_int i
                  > real_of_int MAX_INTERVALS_PER_REQUEST
             then chunk_loop srv jwt rq end_ts (MAX_INTERVALS_PER_REQUEST * i) start_ts [] w
             else Some (fetch_timeseries_single srv jwt w rq)
         | None \<Rightarrow> Some (fetch_timeseries_single srv jwt w rq))"

text \<open>
  \<open>_to_raw_rows\<close>: one row per distinct timestamp, in the order the timestamps are first
  seen; a later value for a key overwrites an earlier one. A point without \<open>ts\<close> is skipped.
  The telemetry keys are taken to differ from the row's own fields \<open>ts\<close> and \<open>entity\<close>.
\<close>

record 'v raw_row =
  rr_ts :: int
  rr_entity :: string
  rr_vals :: "(string \<times> 'v option) list"

fun rows_set :: "'v raw_row list \<Rightarrow> string \<Rightarrow> int \<Rightarrow> string \<Rightarrow> 'v option \<Rightarrow> 'v raw_row list" where
  "rows_set [] name ts k v = [\<lparr> rr_ts = ts, rr_entity = name, rr_vals = [(k, v)] \<rparr>]"
| "rows_set (r # rows) name ts k v =
     (if rr_ts r = ts then r\<lparr>rr_vals := dict_set (rr_vals r) k v\<rparr> # rows
      else r # rows_set rows name ts k v)"

fun rows_points :: "'v raw_row list \<Rightarrow> string \<Rightarrow> string \<Rightarrow> 'v point list \<Rightarrow> 'v raw_row list" where
  "rows_points rows name k [] = rows"
| "rows_points rows name k ((None, v) # ps) = rows_points rows name k ps"
| "rows_points rows name k ((Some ts, v) # ps) =
     rows_points (rows_set rows name ts k v) name k ps"

fun rows_items :: "'v raw_row list \<Rightarrow> string \<Rightarrow> 'v keyed_series \<Rightarrow> 'v raw_row list" where
  "rows_items rows name [] = rows"
| "rows_items rows name ((k, points) # items) =
     rows_items (rows_points rows name k points) name items"

definition to_raw_rows :: "string \<Rightarrow> 'v keyed_series \<Rightarrow> 'v raw_row list" where
  "to_raw_rows entity_name data_dict = rows_items [] entity_name data_dict"

section \<open>Calendar arithmetic of the timestamps\<close>

text \<open>
  A pandas timestamp of the tables is a wall-clock time without zone, here the number of
  milliseconds since 1970-01-01 00:00 of that clock; a date is the number of days since
  1970-01-01. The civil calendar is the proleptic Gregorian one.
\<close>

definition DAY_MS :: int where
  "DAY_MS = 86400000"

definition ts_normalize :: "int \<Rightarrow> int" where
  "ts_normalize t = t - t mod DAY_MS"

definition date_of :: "int \<Rightarrow> int" where
  "date_of t = t div DAY_MS"

definition days_from_civil :: "int \<Rightarrow> int \<Rightarrow> int \<Rightarrow> int" where
  "days_from_civil y m d =
     (let y' = (if m \<le> 2 then y - 1 else y);
          era = y' div 400;
          yoe = y' - era * 400;
          doy = (153 * (if m > 2 then m - 3 else m + 9) + 2) div 5 + d - 1;
          doe = yoe * 365 + yoe div 4 - yoe div 100 + doy
      in era * 146097 + doe - 719468)"

definition civil_from_days :: "int \<Rightarrow> int \<times> int \<times> int" where
  "civil_from_days z =
     (let z' = z + 719468;
          era = z' div 146097;
          doe = z' - era * 146097;
          yoe = (doe - doe div 1460 + doe div 36524 - doe div 146096) div 365;
          doy = doe - (365 * yoe + yoe div 4 - yoe div 100);
          mp = (5 * doy + 2) div 153;
          d = doy - (153 * mp + 2) div 5 + 1;
          m = (if mp < 10 then mp + 3 else mp - 9);
          y = yoe + era * 400
      in (if m \<le> 2 then y + 1 else y, m, d))"

text \<open>Months are counted from year 0: month index \<open>12 * y + (m - 1)\<close>.\<close>

definition month_index :: "int \<Rightarrow> int" where
  "month_index d = (case civil_from_days d of (y, m, _) \<Rightarrow> 12 * y + (m - 1))"

definition month_first_day :: "int \<Rightarrow> int" where
  "month_first_day mi = days_from_civil (mi div 12) (mi mod 12 + 1) 1"

definition month_last_day :: "int \<Rightarrow> int" where
  "month_last_day mi = month_first_day (mi + 1) - 1"

definition year_of :: "int \<Rightarrow> int" where
  "year_of d = (case civil_from_days d of (y, _, _) \<Rightarrow> y)"

text \<open>Python's \<open>weekday()\<close>: Monday is 0 and Sunday is 6; 1970-01-01 was a Thursday.\<close>

definition weekday :: "int \<Rightarrow> int" where
  "weekday d = (d + 3) mod 7"

text \<open>
  \<open>ts + pd.offsets.MonthEnd(1)\<close>: the last day of the month of \<open>ts\<close>, or of the next month
  when \<open>ts\<close> is on a last day already; the time of day is kept. \<open>YearEnd(1)\<close> likewise with
  31 December.
\<close>

definition add_month_end :: "int \<Rightarrow> int" where
  "add_month_end t =
     (let d = date_of t; mi = month_index d;
          target = (if d < month_last_day mi then month_last_day mi else month_last_day (mi + 1))
      in target * DAY_MS + t mod DAY_MS)"

definition add_year_end :: "int \<Rightarrow> int" where
  "add_year_end t =
     (let d = date_of t; y = year_of d;
          target = (if d < days_from_civil y 12 31 then days_from_civil y 12 31
                    else days_from_civil (y + 1) 12 31)
      in target * DAY_MS + t mod DAY_MS)"

text \<open>Wall-clock milliseconds of a civil date and time, for writing examples.\<close>

definition ts_of :: "int \<Rightarrow> int \<Rightarrow> int \<Rightarrow> int \<Rightarrow> int \<Rightarrow> int" where
  "ts_of y m d hh mm = days_from_civil y m d * DAY_MS + hh * 3600000 + mm * 60000"

section \<open>The bins of \<open>DataFrame.resample\<close>\<close>

text \<open>
  The four rules the exporter resamples with, and the labels and bins pandas gives them
  for data between \<open>lo\<close> and \<open>hi\<close> (every bin from the first to the last, empty ones
  included):
  \<^item> \<open>D\<close>: a bin per day, labelled and closed on the left, \<open>[label, label + 1 day)\<close>;
  \<^item> \<open>W-SAT\<close>, \<open>W-SUN\<close>: a bin per week ending on the anchor day, labelled with the midnight
    of that day and holding the seven days up to the end of it;
  \<^item> \<open>MS\<close>, \<open>YS\<close>: a bin per month or year, labelled with its first midnight.
\<close>

datatype freq_str = RD | RW int | RMS | RYS

definition roll_to_weekday :: "int \<Rightarrow> int \<Rightarrow> int" where
  "roll_to_weekday a d = d + (a - weekday d) mod 7"

definition resample_labels :: "freq_str \<Rightarrow> int \<Rightarrow> int \<Rightarrow> int list" where
  "resample_labels r lo hi =
     (case r of
        RD \<Rightarrow> map (\<lambda>d. d * DAY_MS) [date_of lo .. date_of hi]
      | RW a \<Rightarrow>
          (let first = roll_to_weekday a (date_of lo);
               last = roll_to_weekday a (date_of hi)
           in map (\<lambda>i. (first + 7 * i) * DAY_MS) [0 .. (last - first) div 7])
      | RMS \<Rightarrow>
          map (\<lambda>mi. month_first_day mi * DAY_MS)
            [month_index (date_of lo) .. month_index (date_of hi)]
      | RYS \<Rightarrow>
          map (\<lambda>y. days_from_civil y 1 1 * DAY_MS)
            [year_of (date_of lo) .. year_of (date_of hi)])"

definition in_bin :: "freq_str \<Rightarrow> int \<Rightarrow> int \<Rightarrow> bool" where
  "in_bin r label t =
     (case r of
        RD \<Rightarrow> label \<le> t \<and> t < label + DAY_MS
      | RW a \<Rightarrow> label - 6 * DAY_MS \<le> t \<and> t < label + DAY_MS
      | RMS \<Rightarrow> label \<le> t \<and> t < month_first_day (month_index (date_of label) + 1) * DAY_MS
      | RYS \<Rightarrow> label \<le> t \<and> t < days_from_civil (year_of (date_of label) + 1) 1 1 * DAY_MS)"

section \<open>main.py, section 3: aggregation helpers and the period resampler\<close>

text \<open>
  A table (\<open>DataFrame\<close>) is its column names and its rows. The first column of the pivot
  table (\<open>Timestamp\<close>) and of an aggregate table (\<open>Date\<close>) is the number of each row; the
  cells of the other columns follow in the order of \<open>fr_cols\<close>. A null cell (\<open>None\<close>, \<open>NaN\<close>)
  is \<open>None\<close>. \<open>pd.DataFrame()\<close> has neither columns nor rows.
\<close>

record 'v frame =
  fr_cols :: "string list"
  fr_rows :: "(int \<times> 'v option list) list"

definition empty_frame :: "'v frame" where
  "empty_frame = \<lparr> fr_cols = [], fr_rows = [] \<rparr>"

definition frame_empty :: "'v frame \<Rightarrow> bool" where
  "frame_empty df = (fr_cols df = [] \<or> fr_rows df = [])"

text \<open>The cell of a row under a column name; a name the table does not have gives null.\<close>

definition cell :: "string list \<Rightarrow> 'v option list \<Rightarrow> string \<Rightarrow> 'v option" where
  "cell cols cells c = (case map_of (zip cols cells) c of None \<Rightarrow> None | Some v \<Rightarrow> v)"

definition get_agg_func :: "string \<Rightarrow> (string \<times> string) list \<Rightarrow> string" where
  "get_agg_func key agg_map =
     str_or (map_of agg_map key) (str_or (map_of agg_map ''default'') ''mean'')"

definition week_start_offset :: "string \<Rightarrow> int" where
  "week_start_offset ws = (if py_lower ws = ''sunday'' then 6 else 0)"

definition build_agg_dict :: "string list \<Rightarrow> (string \<times> string) list \<Rightarrow> (string \<times> string) list" where
  "build_agg_dict data_cols agg_map =
     foldl (\<lambda>d col. dict_set d col (get_agg_func col agg_map)) [] data_cols"

text \<open>
  The frequencies \<open>"D"\<close>, \<open>"W"\<close>, \<open>"MS"\<close> and \<open>"YS"\<close> the resampler is called with.
\<close>

datatype freq = Freq_D | Freq_W | Freq_MS | Freq_YS

definition data_min :: "(int \<times> 'a) list \<Rightarrow> int" where
  "data_min rows = Min (set (map fst rows))"

definition data_max :: "(int \<times> 'a) list \<Rightarrow> int" where
  "data_max rows = Max (set (map fst rows))"

text \<open>
  \<open>df.resample(freq_str).agg(agg_dict)\<close>: a row per label; the cell of a column is the
  named function of pandas (the parameter \<open>aggf\<close>) over the column's cells of the rows in
  the bin, in the order of time.
\<close>

definition resample_agg ::
  "(string \<Rightarrow> 'v option list \<Rightarrow> 'v option) \<Rightarrow> freq_str \<Rightarrow> (string \<times> string) list \<Rightarrow> string list
    \<Rightarrow> (int \<times> 'v option list) list \<Rightarrow> (int \<times> 'v option list) list" where
  "resample_agg aggf r agg_dict cols rows =
     (if rows = [] then []
      else map (\<lambda>label.
             (label,
              map (\<lambda>(col, f).
                     aggf f (map (\<lambda>(t, cells). cell cols cells col)
                               (filter (\<lambda>(t, cells). in_bin r label t) (sort_key fst rows))))
                agg_dict))
             (resample_labels r (data_min rows) (data_max rows)))"

text \<open>The start and the end of the period of a resampled row, as each branch computes them.\<close>

definition period_bounds :: "freq \<Rightarrow> int \<Rightarrow> int \<times> int" where
  "period_bounds fq period_end =
     (case fq of
        Freq_D \<Rightarrow>
          (let period_start = ts_normalize period_end
           in (period_start, period_start + DAY_MS - 1000))
      | Freq_W \<Rightarrow> (period_end - 6 * DAY_MS, period_end)
      | Freq_MS \<Rightarrow>
          (let period_start = period_end;
               next_month = add_month_end period_start
           in (period_start, ts_normalize next_month + DAY_MS - 1000))
      | Freq_YS \<Rightarrow> (period_end, add_year_end period_end))"

fun complete_rows :: "freq \<Rightarrow> int \<Rightarrow> int \<Rightarrow> (int \<times> 'a) list \<Rightarrow> (int \<times> 'a) list" where
  "complete_rows fq data_start data_end [] = []"
| "complete_rows fq data_start data_end ((period_end, row) # rest) =
     (let (period_start, period_end_excl) = period_bounds fq period_end;
          first_day_complete = (data_start = ts_normalize data_start)
      in if period_start \<ge> ts_normalize data_start \<and> period_end_excl \<le> data_end then
           (if date_of period_start = date_of data_start \<and> \<not> first_day_complete
            then complete_rows fq data_start data_end rest
            else (period_start, row) # complete_rows fq data_start data_end rest)
         else complete_rows fq data_start data_end rest)"

text \<open>The test of the loop body as one predicate of the label: the row is appended.\<close>

definition period_complete :: "freq \<Rightarrow> int \<Rightarrow> int \<Rightarrow> int \<Rightarrow> bool" where
  "period_complete fq data_start data_end period_end =
     (ts_normalize data_start \<le> fst (period_bounds fq period_end)
      \<and> snd (period_bounds fq period_end) \<le> data_end
      \<and> \<not> (date_of (fst (period_bounds fq period_end)) = date_of data_start
             \<and> data_start \<noteq> ts_normalize data_start))"

text \<open>The rule string of the resampling: \<open>W-SAT\<close> for a week starting on Sunday, \<open>W-SUN\<close>
  otherwise; the other frequencies are passed on as they are.\<close>

definition freq_str_of :: "freq \<Rightarrow> sheets_cfg \<Rightarrow> freq_str" where
  "freq_str_of fq sheets_cfg =
     (case fq of
        Freq_W \<Rightarrow>
          (let offset = week_start_offset
                 (case week_start sheets_cfg of None \<Rightarrow> ''Sunday'' | Some ws \<Rightarrow> ws)
           in if offset = 6 then RW 5 else RW 6)
      | Freq_D \<Rightarrow> RD | Freq_MS \<Rightarrow> RMS | Freq_YS \<Rightarrow> RYS)"

text \<open>The list \<open>complete_rows\<close> of \<open>_resample_pivot\<close> after its loop.\<close>

definition complete_periods ::
  "(string \<Rightarrow> 'v option list \<Rightarrow> 'v option) \<Rightarrow> 'v frame \<Rightarrow> freq \<Rightarrow> (string \<times> string) list
    \<Rightarrow> sheets_cfg \<Rightarrow> (int \<times> 'v option list) list" where
  "complete_periods aggf df_pivot fq agg_map sheets_cfg =
     (let data_cols = remove1 ''Timestamp'' (fr_cols df_pivot);
          agg_dict = build_agg_dict data_cols agg_map;
          df_resampled = resample_agg aggf (freq_str_of fq sheets_cfg) agg_dict data_cols
                           (fr_rows df_pivot);
          data_start = data_min (fr_rows df_pivot);
          data_end = data_max (fr_rows df_pivot)
      in complete_rows fq data_start data_end df_resampled)"

definition resample_pivot ::
  "(string \<Rightarrow> 'v option list \<Rightarrow> 'v option) \<Rightarrow> 'v frame \<Rightarrow> freq \<Rightarrow> (string \<times> string) list
    \<Rightarrow> sheets_cfg \<Rightarrow> 'v frame" where
  "resample_pivot aggf df_pivot fq agg_map sheets_cfg =
     (let data_cols = remove1 ''Timestamp'' (fr_cols df_pivot);
          agg_dict = build_agg_dict data_cols agg_map;
          complete = complete_periods aggf df_pivot fq agg_map sheets_cfg
      in if complete = [] then empty_frame
         else \<lparr> fr_cols = ''Date'' # data_cols,
                fr_rows = map (\<lambda>(d, row). (date_of d, map (cell (map fst agg_dict) row) data_cols))
                            complete \<rparr>)"

section \<open>main.py, section 5: building the tables\<close>

text \<open>
  The raw table: the columns \<open>Timestamp\<close> and \<open>Asset Name\<close>, then the requested keys some row
  has. The zone conversion of pandas is the parameter \<open>tzc\<close> (zone name, epoch milliseconds
  to wall-clock milliseconds).
\<close>

record 'v raw_table =
  rt_cols :: "string list"
  rt_rows :: "(int \<times> string \<times> 'v option list) list"

record 'v tables =
  t_raw :: "'v raw_table"
  t_pivot :: "'v frame"
  t_agg :: "(string \<times> 'v frame) list"
  t_p :: parsed

definition raw_value :: "'v raw_row \<Rightarrow> string \<Rightarrow> 'v option" where
  "raw_value r k = (case map_of (rr_vals r) k of None \<Rightarrow> None | Some v \<Rightarrow> v)"

definition raw_columns :: "'v raw_row list \<Rightarrow> string set" where
  "raw_columns rows = (\<Union>r \<in> set rows. fst ` set (rr_vals r))"

fun fetch_all ::
  "'v server \<Rightarrow> (world \<Rightarrow> bool) \<Rightarrow> parsed \<Rightarrow> world \<Rightarrow> entity list
    \<Rightarrow> ((error + 'v raw_row list) \<times> world) option" where
  "fetch_all srv jwt p w [] = Some (Inr [], w)"
| "fetch_all srv jwt p w (e # es) =
     (case fetch_timeseries srv jwt w (ent_type e) (ent_id e) (p_keys p) (p_startTs p)
             (p_endTs p) (p_limit p) (p_agg p) (p_interval p) of
        None \<Rightarrow> None
      | Some (Inl err, w') \<Rightarrow> Some (Inl err, w')
      | Some (Inr data, w') \<Rightarrow>
          (case fetch_all srv jwt p w' es of
             None \<Rightarrow> None
           | Some (Inl err, w'') \<Rightarrow> Some (Inl err, w'')
           | Some (Inr rows, w'') \<Rightarrow> Some (Inr (to_raw_rows (ent_name e) data @ rows), w'')))"

definition pivot_ts_ms :: "parsed \<Rightarrow> int \<Rightarrow> int" where
  "pivot_ts_ms p ts =
     (if agg_active (p_agg p) (p_interval p) then ts - ts mod the (p_interval p) else ts)"

text \<open>
  \<open>pivot_table(index="Timestamp", columns="Asset Name", values=keys, aggfunc="first")\<close> over
  the rows \<open>(timestamp, asset, values)\<close>:
  \<^item> a requested key that is no column of the data raises \<open>KeyError\<close>;
  \<^item> the rows are grouped by timestamp and asset, and the cell of a group and a key is the
    first value of the group that is not null, in the order of the rows;
  \<^item> a group with no value at all is dropped, the assets become columns, the columns are
    sorted by key and asset, and a column with no value at all is dropped.
  The requested keys are taken to be distinct and not to name the columns \<open>Timestamp\<close> and
  \<open>Asset Name\<close>.
\<close>

definition first_valid :: "'v option list \<Rightarrow> 'v option" where
  "first_valid vs = (case filter (\<lambda>v. v \<noteq> None) vs of [] \<Rightarrow> None | v # _ \<Rightarrow> v)"

definition group_first :: "(int \<times> string \<times> 'v raw_row) list \<Rightarrow> int \<Rightarrow> string \<Rightarrow> string \<Rightarrow> 'v option" where
  "group_first src t a k =
     first_valid (map (\<lambda>(t', a', r). raw_value r k)
                    (filter (\<lambda>(t', a', r). t' = t \<and> a' = a) src))"

definition pivot_table ::
  "(int \<times> string \<times> 'v raw_row) list \<Rightarrow> string set \<Rightarrow> string list
    \<Rightarrow> error + ((string \<times> string) list \<times> (int \<times> 'v option list) list)" where
  "pivot_table src data_columns vals =
     (case find (\<lambda>k. k \<notin> data_columns) vals of
        Some k \<Rightarrow> Inl (KeyError k)
      | None \<Rightarrow>
          (let groups = remdups (map (\<lambda>(t, a, r). (t, a)) src);
               live = filter (\<lambda>(t, a). \<exists>k \<in> set vals. group_first src t a k \<noteq> None) groups;
               idx = sort (remdups (map fst live));
               assets = sort (remdups (map snd live));
               colkeys = concat (map (\<lambda>k. map (\<lambda>a. (k, a)) assets) (sort (remdups vals)));
               kept = filter (\<lambda>(k, a). \<exists>t \<in> set idx. group_first src t a k \<noteq> None) colkeys
           in Inr (kept, map (\<lambda>t. (t, map (\<lambda>(k, a). group_first src t a k) kept)) idx)))"

text \<open>The sort key of a remaining column: \<open>(c.split(" ", 1)[0], c.split(" ", 1)[1])\<close>, the
  second part empty when the name has no space.\<close>

definition split_key :: "string \<Rightarrow> string \<times> string" where
  "split_key c =
     (takeWhile (\<lambda>x. x \<noteq> CHR '' '') c,
      if CHR '' '' \<in> set c then tl (dropWhile (\<lambda>x. x \<noteq> CHR '' '') c) else [])"

text \<open>\<open>df[names]\<close> for the pivot table; \<open>names\<close> starts with \<open>Timestamp\<close>, which the
  column map is taken not to name.\<close>

definition select_cols :: "'v frame \<Rightarrow> string list \<Rightarrow> 'v frame" where
  "select_cols df names =
     \<lparr> fr_cols = names,
       fr_rows = map (\<lambda>(t, cells). (t, map (cell (tl (fr_cols df)) cells) (tl names)))
                   (fr_rows df) \<rparr>"

definition order_columns :: "'v frame \<Rightarrow> (string \<times> string list) list \<Rightarrow> 'v frame" where
  "order_columns df_pivot cmap =
     (let col_order = ''Timestamp'' # filter (\<lambda>c. c \<in> set (fr_cols df_pivot)) (map fst cmap);
          remaining = filter (\<lambda>c. c \<notin> set col_order) (fr_cols df_pivot);
          remaining' = sort_key split_key remaining
      in select_cols df_pivot (col_order @ remaining'))"

text \<open>The pivot construction of \<open>build_dataframes_from_widget_payload\<close> from the raw rows
  on: snapping, zone conversion, reshaping, naming and ordering of the columns.\<close>

definition build_pivot ::
  "(string \<Rightarrow> int \<Rightarrow> int) \<Rightarrow> parsed \<Rightarrow> 'v raw_row list \<Rightarrow> error + 'v frame" where
  "build_pivot tzc p raw_rows =
     (let df_pivot_src =
            map (\<lambda>r. (tzc (p_timezone p) (pivot_ts_ms p (rr_ts r)), rr_entity r, r)) raw_rows
      in case pivot_table df_pivot_src (raw_columns raw_rows) (p_keys p) of
           Inl err \<Rightarrow> Inl err
         | Inr (colkeys, rows) \<Rightarrow>
             (let df_pivot =
                    \<lparr> fr_cols = ''Timestamp'' # map (\<lambda>(key, asset). asset @ '' '' @ key) colkeys,
                      fr_rows = sort_key fst rows \<rparr>
              in Inr (order_columns df_pivot (p_column_map p))))"

definition build_raw ::
  "(string \<Rightarrow> int \<Rightarrow> int) \<Rightarrow> parsed \<Rightarrow> 'v raw_row list \<Rightarrow> 'v raw_table" where
  "build_raw tzc p raw_rows =
     (let ks = filter (\<lambda>k. k \<in> raw_columns raw_rows) (p_keys p)
      in \<lparr> rt_cols = [''Timestamp'', ''Asset Name''] @ ks,
           rt_rows = map (\<lambda>r. (tzc (p_timezone p) (rr_ts r), rr_entity r, map (raw_value r) ks))
                       raw_rows \<rparr>)"

fun agg_sheets_loop ::
  "(string \<Rightarrow> 'v option list \<Rightarrow> 'v option) \<Rightarrow> 'v frame \<Rightarrow> (string \<times> string) list \<Rightarrow> sheets_cfg
    \<Rightarrow> (freq \<times> string) list \<Rightarrow> (string \<times> 'v frame) list \<Rightarrow> (string \<times> 'v frame) list" where
  "agg_sheets_loop aggf df_pivot agg_map sheets_cfg [] agg_sheets = agg_sheets"
| "agg_sheets_loop aggf df_pivot agg_map sheets_cfg ((fq, key) # rest) agg_sheets =
     (let df_agg = resample_pivot aggf df_pivot fq agg_map sheets_cfg
      in agg_sheets_loop aggf df_pivot agg_map sheets_cfg rest
           (if \<not> frame_empty df_agg then dict_set agg_sheets key df_agg else agg_sheets))"

definition build_agg_sheets ::
  "(string \<Rightarrow> 'v option list \<Rightarrow> 'v option) \<Rightarrow> 'v frame \<Rightarrow> (string \<times> string) list \<Rightarrow> sheets_cfg
    \<Rightarrow> (string \<times> 'v frame) list" where
  "build_agg_sheets aggf df_pivot agg_map sheets_cfg =
     agg_sheets_loop aggf df_pivot agg_map sheets_cfg
       [(Freq_D, ''daily''), (Freq_W, ''weekly''), (Freq_MS, ''monthly''), (Freq_YS, ''yearly'')]
       []"

text \<open>
  The tables from the raw rows. With no row at all the raw and the pivot table are the
  empty table and there is no aggregate. For descending order both tables are sorted by
  timestamp, latest first (the pivot's timestamps are distinct; the order pandas leaves
  among raw rows of one timestamp is not part of the model, they keep their order here).
\<close>

definition build_tables ::
  "(string \<Rightarrow> int \<Rightarrow> int) \<Rightarrow> (string \<Rightarrow> 'v option list \<Rightarrow> 'v option) \<Rightarrow> parsed \<Rightarrow> 'v raw_row list
    \<Rightarrow> error + 'v tables" where
  "build_tables tzc aggf p raw_rows =
     (if raw_rows = [] then
        Inr \<lparr> t_raw = \<lparr> rt_cols = [], rt_rows = [] \<rparr>, t_pivot = empty_frame, t_agg = [], t_p = p \<rparr>
      else
        (let df_raw = build_raw tzc p raw_rows
         in case build_pivot tzc p raw_rows of
              Inl err \<Rightarrow> Inl err
            | Inr df_pivot0 \<Rightarrow>
                (let desc = (p_order p = ''DESC'');
                     df_raw' = (if desc
                                then df_raw\<lparr>rt_rows := rev (sort_key fst (rev (rt_rows df_raw)))\<rparr>
                                else df_raw);
                     df_pivot = (if desc
                                 then df_pivot0\<lparr>fr_rows := rev (sort_key fst (fr_rows df_pivot0))\<rparr>
                                 else df_pivot0);
                     agg_sheets = build_agg_sheets aggf df_pivot (p_agg_map p) (p_sheets_cfg p)
                 in Inr \<lparr> t_raw = df_raw', t_pivot = df_pivot, t_agg = agg_sheets, t_p = p \<rparr>)))"

definition build_dataframes_from_widget_payload ::
  "'v server \<Rightarrow> (world \<Rightarrow> bool) \<Rightarrow> (string \<Rightarrow> int \<Rightarrow> int) \<Rightarrow> (string \<Rightarrow> 'v option list \<Rightarrow> 'v option)
    \<Rightarrow> world \<Rightarrow> payload \<Rightarrow> ((error + 'v tables) \<times> world) option" where
  "build_dataframes_from_widget_payload srv jwt tzc aggf w pl =
     (case parse_payload pl of
        Inl err \<Rightarrow> Some (Inl err, w)
      | Inr p \<Rightarrow>
          (case fetch_all srv jwt p w (p_entities p) of
             None \<Rightarrow> None
           | Some (Inl err, w') \<Rightarrow> Some (Inl err, w')
           | Some (Inr raw_rows, w') \<Rightarrow> Some (build_tables tzc aggf p raw_rows, w')))"

section \<open>main.py, section 6: the public entry point\<close>

text \<open>
  \<open>generate_pivot_excel_file\<close> validates the payload and hands it on. The workbook is
  written from the tables of \<open>build_dataframes_from_widget_payload\<close>; its rendering is no
  part of the model, so the result here is the tables.
\<close>

definition empty_payload :: payload where
  "empty_payload =
     \<lparr> pl_timezone = None, pl_timeEpoch = None, pl_entities = None, pl_keys = None,
       pl_query = None, pl_reportConfig = None \<rparr>"

definition generate_xlsx_from_widget_payload ::
  "'v server \<Rightarrow> (world \<Rightarrow> bool) \<Rightarrow> (string \<Rightarrow> int \<Rightarrow> int) \<Rightarrow> (string \<Rightarrow> 'v option list \<Rightarrow> 'v option)
    \<Rightarrow> world \<Rightarrow> payload \<Rightarrow> ((error + 'v tables) \<times> world) option" where
  "generate_xlsx_from_widget_payload srv jwt tzc aggf w pl =
     build_dataframes_from_widget_payload srv jwt tzc aggf w pl"

definition generate_pivot_excel_file ::
  "'v server \<Rightarrow> (world \<Rightarrow> bool) \<Rightarrow> (string \<Rightarrow> int \<Rightarrow> int) \<Rightarrow> (string \<Rightarrow> 'v option list \<Rightarrow> 'v option)
    \<Rightarrow> world \<Rightarrow> payload option \<Rightarrow> ((error + 'v tables) \<times> world) option" where
  "generate_pivot_excel_file srv jwt tzc aggf w payload_opt =
     (let pl = (case payload_opt of None \<Rightarrow> empty_payload | Some pl' \<Rightarrow> pl');
          te = (case pl_timeEpoch pl of
                  None \<Rightarrow> \<lparr> startTs_ms = None, endTs_ms = None \<rparr> | Some t \<Rightarrow> t)
      in if startTs_ms te = None \<or> endTs_ms te = None then
           Some (Inl (ValueError ''Missing timeEpoch.startTs_ms or timeEpoch.endTs_ms''), w)
         else if list_or_empty (pl_entities pl) = [] then
           Some (Inl (ValueError ''No entities in payload''), w)
         else if list_or_empty (pl_keys pl) = [] then
           Some (Inl (ValueError ''No keys in payload''), w)
         else generate_xlsx_from_widget_payload srv jwt tzc aggf w pl)"

section \<open>Example inputs\<close>

definition oversized_payload :: payload where
  "oversized_payload =
     \<lparr> pl_timezone = None,
       pl_timeEpoch = Some \<lparr> startTs_ms = Some 0, endTs_ms = Some 1000 \<rparr>,
       pl_entities = Some (\<lparr> e_type = None, e_id = None, e_name = Some ''no id'' \<rparr>
                           # replicate 600 \<lparr> e_type = None, e_id = Some ''a'', e_name = None \<rparr>),
       pl_keys = Some ([Some ''k'', None, Some '' ''] @ replicate 200 (Some ''x'')),
       pl_query = Some \<lparr> q_agg = None, q_interval = None, q_limit = Some 50000, q_order = None \<rparr>,
       pl_reportConfig = None \<rparr>"

definition no_keys_payload :: payload where
  "no_keys_payload =
     \<lparr> pl_timezone = None,
       pl_timeEpoch = Some \<lparr> startTs_ms = Some 0, endTs_ms = Some 1000 \<rparr>,
       pl_entities = Some [\<lparr> e_type = None, e_id = Some ''a'', e_name = None \<rparr>],
       pl_keys = Some [],
       pl_query = None,
       pl_reportConfig = None \<rparr>"

definition world0 :: world where
  "world0 = \<lparr> w_sent = [], w_refreshes = 0 \<rparr>"

definition srv_ok_empty :: "int server" where
  "srv_ok_empty = (\<lambda>w rq. Response 200 (Some []))"

definition jwt_ok :: "world \<Rightarrow> bool" where
  "jwt_ok = (\<lambda>w. True)"

definition tz_utc :: "string \<Rightarrow> int \<Rightarrow> int" where
  "tz_utc = (\<lambda>tz t. t)"

definition agg_first :: "string \<Rightarrow> int option list \<Rightarrow> int option" where
  "agg_first = (\<lambda>f vs. first_valid vs)"

definition per_key_payload :: payload where
  "per_key_payload =
     \<lparr> pl_timezone = None,
       pl_timeEpoch = Some \<lparr> startTs_ms = Some 0, endTs_ms = Some 1000 \<rparr>,
       pl_entities = Some [\<lparr> e_type = None, e_id = Some ''id1'', e_name = Some ''asset1'' \<rparr>],
       pl_keys = Some [Some ''temperature''],
       pl_query = None,
       pl_reportConfig =
         Some \<lparr> rc_filename = None, rc_filename_timestamp = None, rc_formatting = None,
                rc_column_map = Absent, rc_agg_map = Some [(''temperature'', ''sum'')],
                rc_sheets = None \<rparr> \<rparr>"

definition temperature_rows :: "int raw_row list" where
  "temperature_rows =
     [\<lparr> rr_ts = 0, rr_entity = ''asset1'', rr_vals = [(''temperature'', Some 20)] \<rparr>]"

definition per_key_parsed :: parsed where
  "per_key_parsed =
     \<lparr> p_timezone = ''Asia/Bangkok'', p_startTs = 0, p_endTs = 1000,
       p_entities = [\<lparr> ent_type = ''ASSET'', ent_id = ''id1'', ent_name = ''asset1'' \<rparr>],
       p_keys = [''temperature''], p_agg = ''NONE'', p_interval = None, p_limit = 10000,
       p_order = ''ASC'', p_filename = ''tb_pivot_export.xlsx'',
       p_filename_timestamp = True,
       p_fmt = cfg_formatting DEFAULT_REPORT_CONFIG, p_column_map = [],
       p_agg_map = [(''default'', ''mean''), (''temperature'', ''sum'')],
       p_sheets_cfg = \<lparr> week_start = Some ''Sunday'', partial_period = Some False \<rparr> \<rparr>"

definition snap_parsed :: parsed where
  "snap_parsed =
     \<lparr> p_timezone = ''Asia/Bangkok'', p_startTs = 0, p_endTs = 7200000,
       p_entities = [\<lparr> ent_type = ''ASSET'', ent_id = ''id1'', ent_name = ''asset1'' \<rparr>],
       p_keys = [''temperature''], p_agg = ''AVG'', p_interval = Some 3600000, p_limit = 10000,
       p_order = ''ASC'', p_filename = ''tb_pivot_export.xlsx'',
       p_filename_timestamp = True,
       p_fmt = [], p_column_map = [],
       p_agg_map = [(''default'', ''mean'')],
       p_sheets_cfg = \<lparr> week_start = Some ''Sunday'', partial_period = Some False \<rparr> \<rparr>"

definition snap_rows :: "int raw_row list" where
  "snap_rows =
     [\<lparr> rr_ts = 5400000, rr_entity = ''asset1'', rr_vals = [(''temperature'', Some 20)] \<rparr>]"

definition tz_bangkok :: "string \<Rightarrow> int \<Rightarrow> int" where
  "tz_bangkok = (\<lambda>tz t. t + 25200000)"

definition rq0 :: request where
  "rq0 = \<lparr> rq_entity_type = ''ASSET'', rq_entity_id = ''id1'', rq_keys = [''temperature''],
           rq_startTs = 0, rq_endTs = 1000, rq_limit = 10000, rq_agg = ''NONE'',
           rq_interval = None \<rparr>"

definition srv_500 :: "int server" where
  "srv_500 = (\<lambda>w rq. Response 500 None)"

definition srv_401_then_ok :: "int server" where
  "srv_401_then_ok = (\<lambda>w rq. if w_refreshes w = 0 then Response 401 None else Response 200 (Some []))"

text \<open>
  A pivot table with one data column and a row every \<open>step\<close> milliseconds from \<open>start\<close>, the
  rows numbered from 0 to \<open>n\<close>; \<open>make_df\<close> is the table of \<open>test_resample.py\<close> (its values are
  integers here).
\<close>

definition samples_df :: "int \<Rightarrow> int \<Rightarrow> int \<Rightarrow> int frame" where
  "samples_df start step n =
     \<lparr> fr_cols = [''Timestamp'', ''asset1 key1''],
       fr_rows = map (\<lambda>k. (start + k * step, [Some (1000 + 10 * k)])) [0 .. n] \<rparr>"

definition make_df :: "int \<Rightarrow> int \<Rightarrow> int \<Rightarrow> int frame" where
  "make_df start days interval_hours =
     samples_df start (interval_hours * 3600000)
       ((days * DAY_MS - 1) div (interval_hours * 3600000))"

definition default_sheets :: sheets_cfg where
  "default_sheets = \<lparr> week_start = Some ''Sunday'', partial_period = Some False \<rparr>"

section \<open>Parsing the payload\<close>

lemma norm_entities_ids:
  "map ent_id (norm_entities es) = [i. e \<leftarrow> es, Some i \<leftarrow> [e_id e], i \<noteq> []]"
  by (induction es) (auto simp: Let_def split: option.splits)

lemma norm_entities_length: "length (norm_entities es) \<le> length es"
  by (induction es) (auto simp: Let_def split: option.splits)

lemma norm_keys_length: "length (norm_keys ks) \<le> length ks"
  unfolding norm_keys_def
  by (induction ks) (auto split: option.splits)

text \<open>
  C10. Parsing truncates and filters, it never rejects: whenever the time range is present
  the payload parses, whatever the entity and key lists hold. The entities kept are those
  among the first 500 that have a non-empty id, the keys kept are those among the first 100
  that are not null and not whitespace only, and the point limit is at most 10000.
\<close>

theorem parse_payload_truncates:
  assumes "pl_timeEpoch pl = Some te" and "startTs_ms te = Some s" and "endTs_ms te = Some e"
  shows "\<exists>p. parse_payload pl = Inr p
     \<and> map ent_id (p_entities p) =
         [i. x \<leftarrow> take 500 (list_or_empty (pl_entities pl)), Some i \<leftarrow> [e_id x], i \<noteq> []]
     \<and> p_keys p = [k. Some k \<leftarrow> take 100 (list_or_empty (pl_keys pl)), py_strip k \<noteq> []]
     \<and> p_limit p \<le> 10000
     \<and> length (p_entities p) \<le> 500 \<and> length (p_keys p) \<le> 100"
proof -
  let ?es = "take 500 (list_or_empty (pl_entities pl))"
  let ?ks = "take 100 (list_or_empty (pl_keys pl))"
  obtain p where p: "parse_payload pl = Inr p"
    and pe: "p_entities p = norm_entities ?es"
    and pk: "p_keys p = norm_keys ?ks"
    and plim: "p_limit p \<le> 10000"
    using assms
    by (simp add: parse_payload_def Let_def MAX_ENTITIES_def MAX_KEYS_def
        MAX_POINTS_PER_KEY_PER_ENTITY_def split: option.splits)
  have "length (norm_entities ?es) \<le> 500"
    using norm_entities_length [of ?es] by simp
  moreover have "length (norm_keys ?ks) \<le> 100"
    using norm_keys_length [of ?ks] by simp
  ultimately show ?thesis
    using p pe pk plim by (simp add: norm_entities_ids norm_keys_def)
qed

theorem parse_payload_truncates_witness:
  "\<exists>p. parse_payload oversized_payload = Inr p
     \<and> map ent_id (p_entities p) = replicate 499 ''a''
     \<and> p_keys p = ''k'' # replicate 97 ''x''
     \<and> p_limit p \<le> 10000"
proof -
  have st: "py_strip ''k'' \<noteq> []" "py_strip '' '' = []" "py_strip ''x'' \<noteq> []"
    by (simp_all add: py_strip_def py_isspace_def)
  have c1: "concat (replicate n [x]) = replicate n x" for n and x :: string
    by (induction n) simp_all
  have te: "take 500 (a # replicate 600 x) = a # replicate 499 x" for a x :: entity_in
    by (simp add: take_Cons')
  have tk: "take 100 (a # b # c # replicate 200 x) = a # b # c # replicate 97 x"
    for a b c x :: "string option"
    by (simp add: take_Cons')
  have "\<exists>p. parse_payload oversized_payload = Inr p
     \<and> map ent_id (p_entities p) = replicate 499 ''a''
     \<and> p_keys p = ''k'' # replicate 97 ''x''
     \<and> p_limit p \<le> 10000
     \<and> length (p_entities p) \<le> 500 \<and> length (p_keys p) \<le> 100"
    using parse_payload_truncates [of oversized_payload
        "\<lparr> startTs_ms = Some 0, endTs_ms = Some 1000 \<rparr>" 0 1000]
    by (simp add: oversized_payload_def list_or_empty_def te tk st c1 map_replicate_const)
  then show ?thesis by blast
qed

section \<open>Validation at the public entry point\<close>

text \<open>
  C8. A payload that is missing, has no time range (no \<open>timeEpoch\<close>, or no \<open>startTs_ms\<close> or
  \<open>endTs_ms\<close> in it), has no entity or has no key makes \<open>generate_pivot_excel_file\<close> raise
  \<open>ValueError\<close>, and the world is the one it started in: no request was sent.
\<close>

theorem validation_before_fetch:
  assumes "payload_opt = None
     \<or> (\<exists>pl. payload_opt = Some pl
          \<and> (pl_timeEpoch pl = None
             \<or> (\<exists>te. pl_timeEpoch pl = Some te \<and> (startTs_ms te = None \<or> endTs_ms te = None))
             \<or> list_or_empty (pl_entities pl) = []
             \<or> list_or_empty (pl_keys pl) = []))"
  shows "\<exists>msg. generate_pivot_excel_file srv jwt tzc aggf w payload_opt
            = Some (Inl (ValueError msg), w)"
  using assms
  by (auto simp: generate_pivot_excel_file_def empty_payload_def Let_def list_or_empty_def
      split: option.splits)

theorem validation_before_fetch_witness:
  "generate_pivot_excel_file srv_ok_empty jwt_ok tz_utc agg_first world0 (Some no_keys_payload)
     = Some (Inl (ValueError ''No keys in payload''), world0)"
  using validation_before_fetch [of "Some no_keys_payload" srv_ok_empty jwt_ok tz_utc agg_first world0]
  by (simp add: generate_pivot_excel_file_def no_keys_payload_def list_or_empty_def Let_def)

section \<open>The aggregation function of a column\<close>

lemma strip_temperature: "py_strip ''temperature'' = ''temperature''"
  by (simp add: py_strip_def py_isspace_def)

lemma parse_per_key: "parse_payload per_key_payload = Inr per_key_parsed"
  by (simp add: parse_payload_def per_key_payload_def Let_def merge_report_config_def
      resolve_config_def DEFAULT_REPORT_CONFIG_def dict_merge_def str_or_def
      list_or_empty_def MAX_ENTITIES_def MAX_KEYS_def norm_keys_def strip_temperature
      DEFAULT_TIMEZONE_def py_upper_def py_upper_char_def per_key_parsed_def
      MAX_POINTS_PER_KEY_PER_ENTITY_def)

lemma temperature_columns: "raw_columns temperature_rows = {''temperature''}"
  by (simp add: raw_columns_def temperature_rows_def)

lemma temperature_group:
  "group_first [(0, ''asset1'', hd temperature_rows)] 0 ''asset1'' ''temperature'' = Some 20"
  by (simp add: group_first_def first_valid_def raw_value_def temperature_rows_def)

lemma temperature_pivot_table:
  "pivot_table [(0, ''asset1'', hd temperature_rows)] {''temperature''} [''temperature'']
   = Inr ([(''temperature'', ''asset1'')], [(0, [Some 20])])"
  by (simp add: pivot_table_def Let_def temperature_group)

lemma temperature_order:
  "order_columns \<lparr> fr_cols = [''Timestamp'', ''asset1 temperature''],
                 fr_rows = [(0, [Some (20::int)])] \<rparr> []
   = \<lparr> fr_cols = [''Timestamp'', ''asset1 temperature''], fr_rows = [(0, [Some 20])] \<rparr>"
  by (simp add: order_columns_def Let_def select_cols_def cell_def)

lemma temperature_src:
  "map (\<lambda>r. (tz_utc (p_timezone per_key_parsed) (pivot_ts_ms per_key_parsed (rr_ts r)),
             rr_entity r, r)) temperature_rows
   = [(0, ''asset1'', hd temperature_rows)]"
  by (simp add: temperature_rows_def tz_utc_def pivot_ts_ms_def agg_active_def per_key_parsed_def)

lemma temperature_build_pivot:
  "build_pivot tz_utc per_key_parsed temperature_rows
   = Inr \<lparr> fr_cols = [''Timestamp'', ''asset1 temperature''], fr_rows = [(0, [Some 20])] \<rparr>"
  unfolding build_pivot_def temperature_src temperature_columns
  by (simp add: per_key_parsed_def temperature_pivot_table temperature_order)

text \<open>
  C5. The report configuration gives the aggregation function per telemetry key, but the
  resampler looks it up under the name of the pivot column, which is the asset name, a
  space and the key. For the payload whose \<open>agg_map\<close> gives \<open>sum\<close> for the key
  \<open>temperature\<close>, the parsed map holds that entry, the pivot column of the asset
  \<open>asset1\<close> is \<open>asset1 temperature\<close>, and the resampler aggregates it with the default
  \<open>mean\<close>, not with \<open>sum\<close>.
\<close>

theorem agg_func_looked_up_by_column_name:
  "parse_payload per_key_payload = Inr per_key_parsed
   \<and> p_agg_map per_key_parsed = [(''default'', ''mean''), (''temperature'', ''sum'')]
   \<and> get_agg_func ''temperature'' (p_agg_map per_key_parsed) = ''sum''
   \<and> map_sum id fr_cols (build_pivot tz_utc per_key_parsed temperature_rows)
       = Inr [''Timestamp'', ''asset1 temperature'']
   \<and> build_agg_dict (remove1 ''Timestamp'' [''Timestamp'', ''asset1 temperature''])
        (p_agg_map per_key_parsed)
       = [(''asset1 temperature'', ''mean'')]"
proof (intro conjI)
  show "parse_payload per_key_payload = Inr per_key_parsed" by (rule parse_per_key)
  show "p_agg_map per_key_parsed = [(''default'', ''mean''), (''temperature'', ''sum'')]"
    by (simp add: per_key_parsed_def)
  show "get_agg_func ''temperature'' (p_agg_map per_key_parsed) = ''sum''"
    by (simp add: per_key_parsed_def get_agg_func_def str_or_def)
  show "map_sum id fr_cols (build_pivot tz_utc per_key_parsed temperature_rows)
       = Inr [''Timestamp'', ''asset1 temperature'']"
    by (simp add: temperature_build_pivot)
  show "build_agg_dict (remove1 ''Timestamp'' [''Timestamp'', ''asset1 temperature''])
        (p_agg_map per_key_parsed) = [(''asset1 temperature'', ''mean'')]"
    by (simp add: per_key_parsed_def build_agg_dict_def get_agg_func_def str_or_def)
qed

section \<open>Snapping of the pivot timestamps\<close>

lemma select_cols_index: "map fst (fr_rows (select_cols df names)) = map fst (fr_rows df)"
  by (simp add: select_cols_def case_prod_beta comp_def)

lemma order_columns_index:
  "map fst (fr_rows (order_columns df cmap)) = map fst (fr_rows df)"
  by (simp add: order_columns_def Let_def select_cols_index)

lemma pivot_table_index:
  assumes "pivot_table src cols vals = Inr (ck, rows)"
  shows "fst ` set rows \<subseteq> fst ` set src"
proof -
  define groups where "groups = remdups (map (\<lambda>(t, a, r). (t, a)) src)"
  define live where
    "live = filter (\<lambda>(t, a). \<exists>k \<in> set vals. group_first src t a k \<noteq> None) groups"
  have rows: "map fst rows = sort (remdups (map fst live))"
    using assms
    by (auto simp: pivot_table_def Let_def groups_def live_def comp_def
        split: option.splits)
  have "set (map fst rows) = fst ` set live" unfolding rows by simp
  also have "\<dots> \<subseteq> fst ` set groups" unfolding live_def by auto
  also have "\<dots> \<subseteq> fst ` set src" unfolding groups_def by force
  finally show ?thesis by simp
qed

lemma build_pivot_index:
  assumes "build_pivot tzc p raw_rows = Inr df"
  shows "fst ` set (fr_rows df)
         \<subseteq> (\<lambda>r. tzc (p_timezone p) (pivot_ts_ms p (rr_ts r))) ` set raw_rows"
proof -
  let ?src = "map (\<lambda>r. (tzc (p_timezone p) (pivot_ts_ms p (rr_ts r)), rr_entity r, r)) raw_rows"
  obtain ck rows where pt: "pivot_table ?src (raw_columns raw_rows) (p_keys p) = Inr (ck, rows)"
    and df: "df = order_columns
        \<lparr> fr_cols = ''Timestamp'' # map (\<lambda>(key, asset). asset @ '' '' @ key) ck,
          fr_rows = sort_key fst rows \<rparr> (p_column_map p)"
    using assms by (auto simp: build_pivot_def Let_def split: sum.splits)
  have "set (map fst (fr_rows df)) = set (map fst (sort_key fst rows))"
    unfolding df order_columns_index by simp
  then have "fst ` set (fr_rows df) = fst ` set rows" by simp
  also have "\<dots> \<subseteq> fst ` set ?src" by (rule pivot_table_index [OF pt])
  also have "\<dots> = (\<lambda>r. tzc (p_timezone p) (pivot_ts_ms p (rr_ts r))) ` set raw_rows"
    by force
  finally show ?thesis .
qed

lemma build_raw_index:
  "map fst (rt_rows (build_raw tzc p raw_rows)) = map (\<lambda>r. tzc (p_timezone p) (rr_ts r)) raw_rows"
  by (simp add: build_raw_def Let_def comp_def)

text \<open>
  C4. With aggregation active and the interval \<open>i\<close>, the timestamp that keys the pivot table
  is \<open>ts - ts mod i\<close> in epoch milliseconds, a multiple of \<open>i\<close>; with aggregation inactive
  it is the raw timestamp. Every row of the pivot table is keyed by the wall-clock rendering
  of such a timestamp of some raw row, and the raw table keeps the rendering of the raw
  timestamps themselves.
\<close>

theorem pivot_timestamps_snapped:
  "(p_agg p \<noteq> ''NONE'' \<and> p_interval p = Some i \<and> i \<noteq> 0 \<longrightarrow>
      pivot_ts_ms p ts = ts - ts mod i \<and> pivot_ts_ms p ts mod i = 0)
   \<and> (p_agg p = ''NONE'' \<or> p_interval p = None \<or> p_interval p = Some 0 \<longrightarrow>
      pivot_ts_ms p ts = ts)
   \<and> (build_pivot tzc p raw_rows = Inr df \<longrightarrow>
      (\<forall>t \<in> fst ` set (fr_rows df).
         \<exists>r \<in> set raw_rows. t = tzc (p_timezone p) (pivot_ts_ms p (rr_ts r))))
   \<and> map fst (rt_rows (build_raw tzc p raw_rows))
       = map (\<lambda>r. tzc (p_timezone p) (rr_ts r)) raw_rows"
proof (intro conjI impI)
  assume "p_agg p \<noteq> ''NONE'' \<and> p_interval p = Some i \<and> i \<noteq> 0"
  then show "pivot_ts_ms p ts = ts - ts mod i" "pivot_ts_ms p ts mod i = 0"
    by (simp_all add: pivot_ts_ms_def agg_active_def)
next
  assume "p_agg p = ''NONE'' \<or> p_interval p = None \<or> p_interval p = Some 0"
  then show "pivot_ts_ms p ts = ts"
    by (auto simp: pivot_ts_ms_def agg_active_def)
next
  assume "build_pivot tzc p raw_rows = Inr df"
  from build_pivot_index [OF this]
  show "\<forall>t \<in> fst ` set (fr_rows df).
         \<exists>r \<in> set raw_rows. t = tzc (p_timezone p) (pivot_ts_ms p (rr_ts r))"
    by blast
next
  show "map fst (rt_rows (build_raw tzc p raw_rows))
       = map (\<lambda>r. tzc (p_timezone p) (rr_ts r)) raw_rows"
    by (rule build_raw_index)
qed

lemma snap_columns: "raw_columns snap_rows = {''temperature''}"
  by (simp add: raw_columns_def snap_rows_def)

lemma snap_src:
  "map (\<lambda>r. (tz_bangkok (p_timezone snap_parsed) (pivot_ts_ms snap_parsed (rr_ts r)),
             rr_entity r, r)) snap_rows
   = [(28800000, ''asset1'', hd snap_rows)]"
  by (simp add: snap_rows_def tz_bangkok_def pivot_ts_ms_def agg_active_def snap_parsed_def)

lemma snap_group:
  "group_first [(28800000, ''asset1'', hd snap_rows)] 28800000 ''asset1'' ''temperature'' = Some 20"
  by (simp add: group_first_def first_valid_def raw_value_def snap_rows_def)

lemma snap_pivot_table:
  "pivot_table [(28800000, ''asset1'', hd snap_rows)] {''temperature''} [''temperature'']
   = Inr ([(''temperature'', ''asset1'')], [(28800000, [Some 20])])"
  by (simp add: pivot_table_def Let_def snap_group)

lemma snap_order:
  "order_columns \<lparr> fr_cols = [''Timestamp'', ''asset1 temperature''],
                 fr_rows = [(28800000, [Some (20::int)])] \<rparr> []
   = \<lparr> fr_cols = [''Timestamp'', ''asset1 temperature''], fr_rows = [(28800000, [Some 20])] \<rparr>"
  by (simp add: order_columns_def Let_def select_cols_def cell_def)

lemma snap_build_pivot:
  "build_pivot tz_bangkok snap_parsed snap_rows
   = Inr \<lparr> fr_cols = [''Timestamp'', ''asset1 temperature''],
           fr_rows = [(28800000, [Some 20])] \<rparr>"
  unfolding build_pivot_def snap_src snap_columns
  by (simp add: snap_parsed_def snap_pivot_table snap_order)

theorem pivot_timestamps_snapped_witness:
  "pivot_ts_ms snap_parsed 5400000 = 3600000
   \<and> pivot_ts_ms snap_parsed 5400000 mod 3600000 = 0
   \<and> build_pivot tz_bangkok snap_parsed snap_rows
       = Inr \<lparr> fr_cols = [''Timestamp'', ''asset1 temperature''],
               fr_rows = [(28800000, [Some 20])] \<rparr>
   \<and> 28800000 = tz_bangkok (p_timezone snap_parsed) (pivot_ts_ms snap_parsed 5400000)
   \<and> map fst (rt_rows (build_raw tz_bangkok snap_parsed snap_rows)) = [30600000]"
  using pivot_timestamps_snapped [of snap_parsed 3600000 5400000 tz_bangkok snap_rows
      "\<lparr> fr_cols = [''Timestamp'', ''asset1 temperature''], fr_rows = [(28800000, [Some 20])] \<rparr>"]
    snap_build_pivot
  by (simp add: snap_parsed_def snap_rows_def tz_bangkok_def)

section \<open>Failure of a request\<close>

lemma single_no_retry:
  assumes "srv w rq = Response st body" and "st \<noteq> 401"
  shows "fetch_timeseries_single srv jwt w rq
         = (raise_for_status_json (Response st body), w\<lparr>w_sent := w_sent w @ [rq]\<rparr>)"
  using assms by (simp add: fetch_timeseries_single_def http_get_def)

lemma single_retry:
  assumes "srv w rq = Response 401 body" and "jwt (w\<lparr>w_sent := w_sent w @ [rq]\<rparr>)"
  shows "fetch_timeseries_single srv jwt w rq
         = (raise_for_status_json
              (srv (w\<lparr>w_sent := w_sent w @ [rq], w_refreshes := Suc (w_refreshes w)\<rparr>) rq),
            w\<lparr>w_sent := w_sent w @ [rq, rq], w_refreshes := Suc (w_refreshes w)\<rparr>)"
  using assms by (simp add: fetch_timeseries_single_def http_get_def)

lemma single_refresh_fails:
  assumes "srv w rq = Response 401 body" and "\<not> jwt (w\<lparr>w_sent := w_sent w @ [rq]\<rparr>)"
  shows "fetch_timeseries_single srv jwt w rq
         = (Inl AuthError, w\<lparr>w_sent := w_sent w @ [rq], w_refreshes := Suc (w_refreshes w)\<rparr>)"
  using assms by (simp add: fetch_timeseries_single_def http_get_def)

lemma chunk_loop_abort:
  assumes "t < end_ts"
    and "fetch_timeseries_single srv jwt w (rq\<lparr>rq_startTs := t, rq_endTs := min (t + c) end_ts\<rparr>)
         = (Inl e, w')"
  shows "chunk_loop srv jwt rq end_ts c t merged w = Some (Inl e, w')"
  using assms by (subst chunk_loop.simps) (simp add: Let_def)

lemma build_abort:
  assumes "parse_payload pl = Inr p" and "fetch_all srv jwt p w (p_entities p) = Some (Inl e, w')"
  shows "build_dataframes_from_widget_payload srv jwt tzc aggf w pl = Some (Inl e, w')"
  using assms by (simp add: build_dataframes_from_widget_payload_def)

text \<open>
  C7, as the code has it. Only the status 401 is retried: any other status from 400 to 599
  raises at once, after one request and no credential refresh. After a 401 the credential is
  refreshed and the request is sent exactly once more; its outcome is final, so a second
  failure raises. When the refresh itself fails the request is not repeated. An exception
  of one request ends the chunk loop, the loop over the entities and the whole run with that
  exception: no table is returned.
\<close>

theorem retry_only_on_401:
  "(srv w rq = Response st body \<and> st \<noteq> 401 \<and> 400 \<le> st \<and> st < 600 \<longrightarrow>
      fetch_timeseries_single srv jwt w rq
        = (Inl (HTTPError st), w\<lparr>w_sent := w_sent w @ [rq]\<rparr>))
   \<and> (srv w rq = Response 401 body \<and> jwt (w\<lparr>w_sent := w_sent w @ [rq]\<rparr>) \<longrightarrow>
      fetch_timeseries_single srv jwt w rq
        = (raise_for_status_json
             (srv (w\<lparr>w_sent := w_sent w @ [rq], w_refreshes := Suc (w_refreshes w)\<rparr>) rq),
           w\<lparr>w_sent := w_sent w @ [rq, rq], w_refreshes := Suc (w_refreshes w)\<rparr>))
   \<and> (srv w rq = Response 401 body \<and> jwt (w\<lparr>w_sent := w_sent w @ [rq]\<rparr>)
        \<and> srv (w\<lparr>w_sent := w_sent w @ [rq], w_refreshes := Suc (w_refreshes w)\<rparr>) rq
            = Response st2 body2
        \<and> 400 \<le> st2 \<and> st2 < 600 \<longrightarrow>
      fetch_timeseries_single srv jwt w rq
        = (Inl (HTTPError st2),
           w\<lparr>w_sent := w_sent w @ [rq, rq], w_refreshes := Suc (w_refreshes w)\<rparr>))
   \<and> (srv w rq = Response 401 body \<and> \<not> jwt (w\<lparr>w_sent := w_sent w @ [rq]\<rparr>) \<longrightarrow>
      fetch_timeseries_single srv jwt w rq
        = (Inl AuthError, w\<lparr>w_sent := w_sent w @ [rq], w_refreshes := Suc (w_refreshes w)\<rparr>))
   \<and> (t < end_ts
        \<and> fetch_timeseries_single srv jwt w (rq\<lparr>rq_startTs := t, rq_endTs := min (t + c) end_ts\<rparr>)
            = (Inl e, w') \<longrightarrow>
      chunk_loop srv jwt rq end_ts c t merged w = Some (Inl e, w'))
   \<and> (fetch_timeseries srv jwt w (ent_type x) (ent_id x) (p_keys p) (p_startTs p) (p_endTs p)
          (p_limit p) (p_agg p) (p_interval p) = Some (Inl e, w') \<longrightarrow>
      fetch_all srv jwt p w (x # xs) = Some (Inl e, w'))
   \<and> (fetch_timeseries srv jwt w (ent_type x) (ent_id x) (p_keys p) (p_startTs p) (p_endTs p)
          (p_limit p) (p_agg p) (p_interval p) = Some (Inr data, w')
        \<and> fetch_all srv jwt p w' xs = Some (Inl e, w'') \<longrightarrow>
      fetch_all srv jwt p w (x # xs) = Some (Inl e, w''))
   \<and> (parse_payload pl = Inr p \<and> fetch_all srv jwt p w (p_entities p) = Some (Inl e, w') \<longrightarrow>
      build_dataframes_from_widget_payload srv jwt tzc aggf w pl = Some (Inl e, w'))"
proof (intro conjI impI; (elim conjE)?)
  assume "srv w rq = Response st body" "st \<noteq> 401" "400 \<le> st" "st < 600"
  then show "fetch_timeseries_single srv jwt w rq
        = (Inl (HTTPError st), w\<lparr>w_sent := w_sent w @ [rq]\<rparr>)"
    by (simp add: single_no_retry raise_for_status_json_def)
next
  assume "srv w rq = Response 401 body" "jwt (w\<lparr>w_sent := w_sent w @ [rq]\<rparr>)"
  then show "fetch_timeseries_single srv jwt w rq
        = (raise_for_status_json
             (srv (w\<lparr>w_sent := w_sent w @ [rq], w_refreshes := Suc (w_refreshes w)\<rparr>) rq),
           w\<lparr>w_sent := w_sent w @ [rq, rq], w_refreshes := Suc (w_refreshes w)\<rparr>)"
    by (rule single_retry)
next
  assume "srv w rq = Response 401 body" "jwt (w\<lparr>w_sent := w_sent w @ [rq]\<rparr>)"
    "srv (w\<lparr>w_sent := w_sent w @ [rq], w_refreshes := Suc (w_refreshes w)\<rparr>) rq
       = Response st2 body2" "400 \<le> st2" "st2 < 600"
  then show "fetch_timeseries_single srv jwt w rq
        = (Inl (HTTPError st2),
           w\<lparr>w_sent := w_sent w @ [rq, rq], w_refreshes := Suc (w_refreshes w)\<rparr>)"
    by (simp add: single_retry raise_for_status_json_def)
next
  assume "srv w rq = Response 401 body" "\<not> jwt (w\<lparr>w_sent := w_sent w @ [rq]\<rparr>)"
  then show "fetch_timeseries_single srv jwt w rq
        = (Inl AuthError, w\<lparr>w_sent := w_sent w @ [rq], w_refreshes := Suc (w_refreshes w)\<rparr>)"
    by (rule single_refresh_fails)
next
  assume "t < end_ts"
    "fetch_timeseries_single srv jwt w (rq\<lparr>rq_startTs := t, rq_endTs := min (t + c) end_ts\<rparr>)
       = (Inl e, w')"
  then show "chunk_loop srv jwt rq end_ts c t merged w = Some (Inl e, w')"
    by (rule chunk_loop_abort)
next
  assume "fetch_timeseries srv jwt w (ent_type x) (ent_id x) (p_keys p) (p_startTs p) (p_endTs p)
          (p_limit p) (p_agg p) (p_interval p) = Some (Inl e, w')"
  then show "fetch_all srv jwt p w (x # xs) = Some (Inl e, w')" by simp
next
  assume "fetch_timeseries srv jwt w (ent_type x) (ent_id x) (p_keys p) (p_startTs p) (p_endTs p)
          (p_limit p) (p_agg p) (p_interval p) = Some (Inr data, w')"
    "fetch_all srv jwt p w' xs = Some (Inl e, w'')"
  then show "fetch_all srv jwt p w (x # xs) = Some (Inl e, w'')" by simp
next
  assume "parse_payload pl = Inr p" "fetch_all srv jwt p w (p_entities p) = Some (Inl e, w')"
  then show "build_dataframes_from_widget_payload srv jwt tzc aggf w pl = Some (Inl e, w')"
    by (rule build_abort)
qed

text \<open>
  C7 as stated fails: a response with status 500 is not retried. One request is sent, the
  credential is not refreshed, and the error is raised.
\<close>

theorem no_retry_on_500_counterexample:
  "fetch_timeseries_single srv_500 jwt_ok world0 rq0
   = (Inl (HTTPError 500), \<lparr> w_sent = [rq0], w_refreshes = 0 \<rparr>)"
  by (simp add: fetch_timeseries_single_def http_get_def srv_500_def world0_def
      raise_for_status_json_def)

theorem retry_only_on_401_witness:
  "fetch_timeseries_single srv_401_then_ok jwt_ok world0 rq0
   = (Inr [], \<lparr> w_sent = [rq0, rq0], w_refreshes = 1 \<rparr>)"
  using retry_only_on_401 [of srv_401_then_ok world0 rq0 401 None jwt_ok]
  by (simp add: srv_401_then_ok_def world0_def jwt_ok_def raise_for_status_json_def)

end
